theory Spec2Isabelle
  imports Complex_Main
begin

section \<open>Data model\<close>

text \<open>
  The services of \<^verbatim>\<open>backend/app/services\<close> work on a SQLAlchemy session. The
  session is modelled as a record of tables, each table a list of rows in storage
  order; a query is a \<open>filter\<close> over the table and \<open>.first()\<close> is the first row of
  the result. Identifiers (UUIDs) are natural numbers, a calendar date is its day
  number, a timestamp is a number of microseconds. Python floats are modelled as exact
  real numbers: the model follows the control flow and the formulas of the code, not
  the rounding of IEEE doubles. The two computations whose result depends on the
  doubles themselves (the clamp of the risk score, the equity score) are modelled a
  second time over the doubles, in the section on IEEE double arithmetic.
\<close>

type_synonym uuid = nat
type_synonym date = int
type_synonym datetime = int

datatype task_status = Pending | InProgress | Completed | Blocked | Cancelled

datatype achievement_type = Deliverable | Innovation | ClientFeedback | Collaboration | Learning

record team =
  team_id :: uuid
  team_name :: string

record employee =
  emp_id :: uuid
  emp_name :: string
  emp_team_id :: "uuid option"
  productivity_periods :: "string \<Rightarrow> real option"

record task =
  task_id :: uuid
  title :: string
  assigned_to :: "uuid option"
  urgency :: int
  deadline :: "datetime option"
  estimated_effort :: "real option"
  status :: task_status
  priority_score :: "real option"
  dependencies :: "uuid list option"

record burnout_metric =
  bm_employee_id :: uuid
  bm_date :: date
  hours_worked :: real
  breaks_taken :: int
  cognitive_load :: real
  social_interactions :: int
  task_completion_rate :: real
  sentiment_score :: "real option"
  risk_score :: "real option"

record achievement =
  ach_id :: uuid
  ach_employee_id :: uuid
  ach_type :: achievement_type
  description :: string
  impact_score :: real
  recognized_by_manager :: bool
  recognition_note :: "string option"
  related_task_id :: "uuid option"

record database =
  teams :: "team list"
  employees :: "employee list"
  tasks :: "task list"
  burnout_metrics :: "burnout_metric list"
  achievements :: "achievement list"

datatype error = ValueError string | IndexError | AttributeError | ZeroDivisionError
  | OverflowError | TypeError | ProgrammingError

text \<open>
  Python's \<^verbatim>\<open>x or d\<close> on an optional number: the default \<open>d\<close> replaces \<open>None\<close>
  and every falsy number, that is zero.
\<close>

definition py_or :: "real option \<Rightarrow> real \<Rightarrow> real" where
  "py_or x d = (case x of None \<Rightarrow> d | Some v \<Rightarrow> if v = 0 then d else v)"

text \<open>SQL \<^verbatim>\<open>AVG\<close>: the mean of the non-null values, \<open>NULL\<close> when there is none.\<close>

definition sql_avg :: "real option list \<Rightarrow> real option" where
  "sql_avg vs =
     (let xs = List.map_filter id vs
      in if xs = [] then None else Some (sum_list xs / real (length xs)))"

section \<open>Burnout detection service\<close>

definition w_hours :: real where "w_hours = 0.3"
definition w_cognitive :: real where "w_cognitive = 0.25"
definition w_isolation :: real where "w_isolation = 0.2"
definition w_completion :: real where "w_completion = 0.1"
definition w_sentiment :: real where "w_sentiment = 0.15"

record recent_metrics =
  avg_hours_worked :: real
  avg_cognitive_load :: real
  avg_social_interactions :: real
  avg_task_completion_rate :: real
  avg_sentiment_score :: real

definition in_window :: "uuid \<Rightarrow> date \<Rightarrow> burnout_metric \<Rightarrow> bool" where
  "in_window employee_id cutoff_date m =
     (bm_employee_id m = employee_id \<and> bm_date m \<ge> cutoff_date)"

definition get_recent_metrics :: "database \<Rightarrow> date \<Rightarrow> uuid \<Rightarrow> int \<Rightarrow> recent_metrics option" where
  "get_recent_metrics db today employee_id days =
     (let cutoff_date = today - days;
          rows = filter (in_window employee_id cutoff_date) (burnout_metrics db);
          r_hours = sql_avg (map (\<lambda>m. Some (hours_worked m)) rows);
          r_cognitive = sql_avg (map (\<lambda>m. Some (cognitive_load m)) rows);
          r_social = sql_avg (map (\<lambda>m. Some (real_of_int (social_interactions m))) rows);
          r_completion = sql_avg (map (\<lambda>m. Some (task_completion_rate m)) rows);
          r_sentiment = sql_avg (map sentiment_score rows)
      in case r_hours of
           None \<Rightarrow> None
         | Some _ \<Rightarrow>
             Some \<lparr> avg_hours_worked = py_or r_hours 8,
                    avg_cognitive_load = py_or r_cognitive 0.5,
                    avg_social_interactions = py_or r_social 5,
                    avg_task_completion_rate = py_or r_completion 1,
                    avg_sentiment_score = py_or r_sentiment 0 \<rparr>)"

definition normalize_hours :: "real \<Rightarrow> real" where
  "normalize_hours hours =
     (if hours \<le> 8 then 0
      else if hours \<le> 9 then 0.3
      else if hours \<le> 10 then 0.6
      else if hours \<le> 11 then 0.8
      else 1)"

definition normalize_isolation :: "real \<Rightarrow> real" where
  "normalize_isolation interactions =
     (if interactions \<ge> 10 then 0
      else if interactions \<ge> 7 then 0.2
      else if interactions \<ge> 5 then 0.4
      else if interactions \<ge> 3 then 0.7
      else 1)"

definition normalize_sentiment :: "real option \<Rightarrow> real" where
  "normalize_sentiment sentiment =
     (case sentiment of None \<Rightarrow> 0.5 | Some s \<Rightarrow> (1 - s) / 2)"

definition calculate_risk_score :: "database \<Rightarrow> date \<Rightarrow> uuid \<Rightarrow> int \<Rightarrow> real" where
  "calculate_risk_score db today employee_id days =
     (case get_recent_metrics db today employee_id days of
        None \<Rightarrow> 0
      | Some metrics \<Rightarrow>
          (let hours_score = normalize_hours (avg_hours_worked metrics);
               cognitive_score = avg_cognitive_load metrics;
               isolation_score = normalize_isolation (avg_social_interactions metrics);
               completion_score = 1 - avg_task_completion_rate metrics;
               sentiment_score = normalize_sentiment (Some (avg_sentiment_score metrics));
               risk = w_hours * hours_score + w_cognitive * cognitive_score
                      + w_isolation * isolation_score + w_completion * completion_score
                      + w_sentiment * sentiment_score
           in min (max risk 0) 1))"

text \<open>
  The interventions only print; the model returns the list of the actions taken, in
  the order of the calls.
\<close>

datatype intervention =
    BlockNewTasks uuid
  | AlertManager uuid string
  | SuggestDelegation "string list"
  | InsertMicroBreaks uuid

definition delegable :: "uuid \<Rightarrow> task \<Rightarrow> bool" where
  "delegable employee_id t =
     (assigned_to t = Some employee_id \<and> status t = Pending
      \<and> (case priority_score t of None \<Rightarrow> False | Some p \<Rightarrow> p < 0.6))"

definition priority_key :: "task \<Rightarrow> real" where
  "priority_key t = (case priority_score t of None \<Rightarrow> 0 | Some p \<Rightarrow> p)"

definition suggest_delegation :: "database \<Rightarrow> uuid \<Rightarrow> intervention" where
  "suggest_delegation db employee_id =
     SuggestDelegation
       (map title (take 3 (sort_key priority_key (filter (delegable employee_id) (tasks db)))))"

definition trigger_interventions :: "database \<Rightarrow> date \<Rightarrow> uuid \<Rightarrow> intervention list" where
  "trigger_interventions db today employee_id =
     (let risk_score = calculate_risk_score db today employee_id 7
      in if risk_score \<ge> 0.9 then
           [BlockNewTasks employee_id, AlertManager employee_id ''critical'']
         else if risk_score \<ge> 0.8 then
           [AlertManager employee_id ''high'', suggest_delegation db employee_id]
         else if risk_score \<ge> 0.7 then
           [suggest_delegation db employee_id]
         else if risk_score \<ge> 0.5 then
           [InsertMicroBreaks employee_id]
         else [])"

text \<open>
  \<open>update_daily_metric\<close>: the row of the employee and date is looked up with
  \<^verbatim>\<open>.first()\<close>; it is overwritten in place, or a new row is added at the end of
  the table with the column defaults of the model (\<open>cognitive_load = 0.5\<close>,
  \<open>social_interactions = 0\<close>, \<open>task_completion_rate = 1.0\<close>). The risk score is
  computed on the flushed table and written to the same row. The function returns
  the new database and the row.
\<close>

fun update_first :: "('a \<Rightarrow> bool) \<Rightarrow> ('a \<Rightarrow> 'a) \<Rightarrow> 'a list \<Rightarrow> 'a list" where
  "update_first P f [] = []"
| "update_first P f (x # xs) = (if P x then f x # xs else x # update_first P f xs)"

definition same_day :: "uuid \<Rightarrow> date \<Rightarrow> burnout_metric \<Rightarrow> bool" where
  "same_day employee_id metric_date m =
     (bm_employee_id m = employee_id \<and> bm_date m = metric_date)"

definition update_daily_metric ::
  "database \<Rightarrow> date \<Rightarrow> uuid \<Rightarrow> real \<Rightarrow> int \<Rightarrow> real option \<Rightarrow> date option
     \<Rightarrow> database \<times> burnout_metric" where
  "update_daily_metric db today employee_id hours breaks sentiment metric_date_arg =
     (let metric_date = (case metric_date_arg of None \<Rightarrow> today | Some d \<Rightarrow> d);
          rows = burnout_metrics db;
          (rows1, metric) =
            (case find (same_day employee_id metric_date) rows of
               Some existing \<Rightarrow>
                 (let m = existing
                        \<lparr> hours_worked := hours,
                          breaks_taken := breaks,
                          sentiment_score :=
                            (case sentiment of
                               None \<Rightarrow> sentiment_score existing
                             | Some s \<Rightarrow> Some s) \<rparr>
                  in (update_first (same_day employee_id metric_date) (\<lambda>_. m) rows, m))
             | None \<Rightarrow>
                 (let m = \<lparr> bm_employee_id = employee_id, bm_date = metric_date,
                            hours_worked = hours, breaks_taken = breaks,
                            cognitive_load = 0.5, social_interactions = 0,
                            task_completion_rate = 1, sentiment_score = sentiment,
                            risk_score = None \<rparr>
                  in (rows @ [m], m)));
          db1 = db \<lparr> burnout_metrics := rows1 \<rparr>;
          metric' = metric \<lparr> risk_score := Some (calculate_risk_score db1 today employee_id 7) \<rparr>
      in (db1 \<lparr> burnout_metrics :=
                  update_first (same_day employee_id metric_date) (\<lambda>_. metric') rows1 \<rparr>,
          metric'))"

definition strip_risk :: "burnout_metric \<Rightarrow> burnout_metric" where
  "strip_risk m = m \<lparr> risk_score := None \<rparr>"

text \<open>
  The first statement that \<open>calculate_risk_score\<close> reaches, in
  \<open>_get_recent_metrics\<close>, computes the cutoff date
  \<^verbatim>\<open>date.today() - timedelta(days=days)\<close>. \<open>timedelta\<close> raises \<open>OverflowError\<close>
  when \<open>days\<close> exceeds \<open>999999999\<close> in magnitude, and the subtraction raises
  \<open>OverflowError\<close> when the result lies before \<open>date.min\<close> or after \<open>date.max\<close>.
  Day numbers count from 1 January 2000 (day 0): \<open>date.min\<close> is day \<open>-730119\<close> and
  \<open>date.max\<close> is day \<open>2921939\<close>. \<open>calculate_risk_score_call\<close> is the call with
  this statement; \<open>calculate_risk_score\<close> above is its result once the cutoff date
  exists.
\<close>

definition date_min :: date where "date_min = - 730119"
definition date_max :: date where "date_max = 2921939"

definition cutoff_date :: "date \<Rightarrow> int \<Rightarrow> error + date" where
  "cutoff_date today days =
     (if \<bar>days\<bar> > 999999999 then Inl OverflowError
      else if today - days < date_min \<or> date_max < today - days then Inl OverflowError
      else Inr (today - days))"

definition calculate_risk_score_call :: "database \<Rightarrow> date \<Rightarrow> uuid \<Rightarrow> int \<Rightarrow> error + real" where
  "calculate_risk_score_call db today employee_id days =
     (case cutoff_date today days of
        Inl e \<Rightarrow> Inl e
      | Inr cutoff \<Rightarrow> Inr (calculate_risk_score db today employee_id days))"

text \<open>
  The lookback window as the specification words it: the rows of the employee dated
  from \<open>today - days\<close> to \<open>today\<close>. The query itself has no upper bound
  (\<open>in_window\<close>).
\<close>

definition in_spec_window :: "uuid \<Rightarrow> date \<Rightarrow> int \<Rightarrow> burnout_metric \<Rightarrow> bool" where
  "in_spec_window employee_id today days m =
     (bm_employee_id m = employee_id \<and> today - days \<le> bm_date m \<and> bm_date m \<le> today)"

section \<open>Workload balancing service\<close>

definition alpha :: real where "alpha = 0.6"
definition beta :: real where "beta = 0.4"

record workload =
  wl_employee_id :: uuid
  wl_employee_name :: string
  cumulative_load :: real
  critical_score :: real
  global_score :: real
  active_tasks_count :: nat
  high_priority_tasks_count :: nat

record member_workload =
  mw_employee_id :: uuid
  mw_employee_name :: string
  mw_cumulative_load :: real
  mw_critical_score :: real
  mw_global_score :: real
  mw_active_tasks :: nat

record team_equity_response =
  resp_team_id :: uuid
  resp_team_name :: string
  equity_score :: real
  member_workloads :: "member_workload list"
  recommendations :: "string list"

record transfer_suggestion =
  ts_task_id :: uuid
  ts_task_title :: string
  from_employee :: string
  to_employee :: string
  ts_priority_score :: "real option"
  ts_estimated_effort :: "real option"

text \<open>A list comprehension over calls that may raise: the first error ends it.\<close>

fun collect :: "('e + 'a) list \<Rightarrow> 'e + 'a list" where
  "collect [] = Inr []"
| "collect (x # xs) =
     (case x of
        Inl e \<Rightarrow> Inl e
      | Inr v \<Rightarrow> (case collect xs of Inl e \<Rightarrow> Inl e | Inr vs \<Rightarrow> Inr (v # vs)))"

definition is_active :: "uuid \<Rightarrow> task \<Rightarrow> bool" where
  "is_active employee_id t =
     (assigned_to t = Some employee_id \<and> (status t = Pending \<or> status t = InProgress))"

text \<open>
  \<open>_calculate_employee_workload\<close> reads the employee row for its name
  (\<^verbatim>\<open>employee.name\<close> raises \<open>AttributeError\<close> when there is no such row).
\<close>

definition calculate_employee_workload :: "database \<Rightarrow> uuid \<Rightarrow> error + workload" where
  "calculate_employee_workload db employee_id =
     (case find (\<lambda>e. emp_id e = employee_id) (employees db) of
        None \<Rightarrow> Inl AttributeError
      | Some employee \<Rightarrow>
          (let ts = filter (is_active employee_id) (tasks db);
               cumulative = sum_list
                 (map (\<lambda>t. py_or (estimated_effort t) 2 * py_or (priority_score t) 0.5) ts);
               critical = sum_list
                 (map (\<lambda>t. py_or (priority_score t) 0.5) (filter (\<lambda>t. urgency t \<ge> 4) ts));
               high_priority_count =
                 length (filter (\<lambda>t. py_or (priority_score t) 0 \<ge> 0.7) ts);
               global = alpha * cumulative + beta * critical
           in Inr \<lparr> wl_employee_id = employee_id,
                    wl_employee_name = emp_name employee,
                    cumulative_load = cumulative,
                    critical_score = critical,
                    global_score = global,
                    active_tasks_count = length ts,
                    high_priority_tasks_count = high_priority_count \<rparr>))"

definition calculate_equity_score :: "workload list \<Rightarrow> real" where
  "calculate_equity_score workloads =
     (if workloads = [] then 1
      else
        (let scores = map global_score workloads;
             mean_score = sum_list scores / real (length scores)
         in if mean_score = 0 then 1
            else
              (let variance =
                     sum_list (map (\<lambda>s. (s - mean_score)\<^sup>2) scores) / real (length scores);
                   std_dev = sqrt variance;
                   cv = (if mean_score > 0 then std_dev / mean_score else 0)
               in max 0 (1 - cv))))"

text \<open>Decimal rendering of a count, as an f-string prints it.\<close>

fun str_nat :: "nat \<Rightarrow> string" where
  "str_nat n =
     (if n < 10 then [char_of (48 + n)]
      else str_nat (n div 10) @ [char_of (48 + n mod 10)])"

text \<open>
  \<open>sorted(..., reverse=True)\<close> is a stable sort on the negated key.
\<close>

definition sort_desc :: "workload list \<Rightarrow> workload list" where
  "sort_desc workloads = sort_key (\<lambda>w. - global_score w) workloads"

definition high_priority_notices :: "workload list \<Rightarrow> string list" where
  "high_priority_notices workloads =
     map (\<lambda>w. wl_employee_name w @ '' has '' @ str_nat (high_priority_tasks_count w)
               @ '' high-priority tasks. Consider delegating lower-priority items.'')
         (filter (\<lambda>w. high_priority_tasks_count w > 5) workloads)"

definition generate_balancing_recommendations :: "workload list \<Rightarrow> error + string list" where
  "generate_balancing_recommendations workloads =
     (if workloads = [] then Inr [''No team members to analyze'']
      else case sort_desc workloads of
        [] \<Rightarrow> Inl IndexError
      | overloaded # rest \<Rightarrow>
          (let underloaded = last (overloaded # rest)
           in if global_score underloaded + 0.1 = 0 then Inl ZeroDivisionError
              else
                (let imbalance_ratio = global_score overloaded / (global_score underloaded + 0.1);
                     r1 = (if imbalance_ratio > 2 then
                             [''CRITICAL: '' @ wl_employee_name overloaded
                              @ '' is significantly overloaded. ''
                              @ ''Consider redistributing tasks to ''
                              @ wl_employee_name underloaded @ ''.'']
                           else []);
                     r2 = (if imbalance_ratio > 1.5 then
                             [''Workload imbalance detected. Review task distribution between ''
                              @ wl_employee_name overloaded @ '' and ''
                              @ wl_employee_name underloaded @ ''.'']
                           else []);
                     r3 = high_priority_notices workloads;
                     total_load = sum_list (map global_score workloads);
                     avg_load = total_load / real (length workloads);
                     r4 = (if avg_load > 20 then
                             [''Team appears to be operating at high capacity. Consider extending deadlines ''
                              @ ''or requesting additional resources.'']
                           else []);
                     recs = r1 @ r2 @ r3 @ r4
                 in Inr (if recs = []
                         then [''Workload is well-balanced across the team. Keep monitoring.'']
                         else recs))))"

definition member_dict :: "workload \<Rightarrow> member_workload" where
  "member_dict w =
     \<lparr> mw_employee_id = wl_employee_id w,
       mw_employee_name = wl_employee_name w,
       mw_cumulative_load = cumulative_load w,
       mw_critical_score = critical_score w,
       mw_global_score = global_score w,
       mw_active_tasks = active_tasks_count w \<rparr>"

definition team_members :: "database \<Rightarrow> uuid \<Rightarrow> employee list" where
  "team_members db tid = filter (\<lambda>e. emp_team_id e = Some tid) (employees db)"

definition team_workloads :: "database \<Rightarrow> employee list \<Rightarrow> error + workload list" where
  "team_workloads db emps =
     collect (map (\<lambda>emp. calculate_employee_workload db (emp_id emp)) emps)"

definition calculate_team_equity :: "database \<Rightarrow> uuid \<Rightarrow> error + team_equity_response" where
  "calculate_team_equity db tid =
     (case find (\<lambda>t. team_id t = tid) (teams db) of
        None \<Rightarrow> Inl (ValueError ''Team not found'')
      | Some team \<Rightarrow>
          (let emps = team_members db tid
           in if emps = [] then
                Inr \<lparr> resp_team_id = tid,
                      resp_team_name = team_name team,
                      equity_score = 1,
                      member_workloads = [],
                      recommendations = [''No team members found''] \<rparr>
              else
                (case team_workloads db emps of
                   Inl e \<Rightarrow> Inl e
                 | Inr workloads \<Rightarrow>
                     (case generate_balancing_recommendations workloads of
                        Inl e \<Rightarrow> Inl e
                      | Inr recs \<Rightarrow>
                          Inr \<lparr> resp_team_id = tid,
                                resp_team_name = team_name team,
                                equity_score = calculate_equity_score workloads,
                                member_workloads = map member_dict workloads,
                                recommendations = recs \<rparr>))))"

text \<open>
  The database behind the session. \<^verbatim>\<open>core/config.py\<close> configures
  \<^verbatim>\<open>postgresql://...\<close>; the models also run on SQLite.
\<close>

datatype dialect = PostgreSQL | SQLite

definition configured_dialect :: dialect where
  "configured_dialect = PostgreSQL"

text \<open>
  \<open>_find_transferable_task\<close> filters on \<^verbatim>\<open>Task.dependencies == []\<close>, and
  \<open>dependencies\<close> is a \<open>JSON\<close> column. PostgreSQL has no equality operator for the
  type \<open>json\<close>: the statement is refused (\<open>operator does not exist: json = unknown\<close>)
  and the query raises \<open>ProgrammingError\<close>, whatever the table holds. SQLite stores the
  column as text and compares it with the text of the empty list. There the result
  is the first of the pending tasks of the employee with an empty dependency list,
  ordered by \<open>priority_score\<close> ascending and then by \<open>deadline\<close> descending;
  SQLite puts \<open>NULL\<close> first in ascending and last in descending order; among rows
  that the ordering does not separate, the first of the table is taken.
\<close>

definition transferable :: "uuid \<Rightarrow> task \<Rightarrow> bool" where
  "transferable from_employee_id t =
     (assigned_to t = Some from_employee_id \<and> status t = Pending \<and> dependencies t = Some [])"

fun priority_asc :: "real option \<Rightarrow> real option \<Rightarrow> bool" where
  "priority_asc (Some a) (Some b) = (a < b)"
| "priority_asc None (Some b) = True"
| "priority_asc _ None = False"

fun deadline_desc :: "datetime option \<Rightarrow> datetime option \<Rightarrow> bool" where
  "deadline_desc (Some a) (Some b) = (a > b)"
| "deadline_desc (Some a) None = True"
| "deadline_desc None _ = False"

definition transfer_before :: "task \<Rightarrow> task \<Rightarrow> bool" where
  "transfer_before a b =
     (priority_asc (priority_score a) (priority_score b)
      \<or> (priority_score a = priority_score b \<and> deadline_desc (deadline a) (deadline b)))"

fun first_ordered :: "task list \<Rightarrow> task option" where
  "first_ordered [] = None"
| "first_ordered (t # ts) =
     (case first_ordered ts of
        None \<Rightarrow> Some t
      | Some b \<Rightarrow> if transfer_before b t then Some b else Some t)"

definition find_transferable_task ::
  "dialect \<Rightarrow> database \<Rightarrow> uuid \<Rightarrow> uuid \<Rightarrow> error + task option" where
  "find_transferable_task backend db from_employee_id to_employee_id =
     (case backend of
        PostgreSQL \<Rightarrow> Inl ProgrammingError
      | SQLite \<Rightarrow> Inr (first_ordered (filter (transferable from_employee_id) (tasks db))))"

definition reassign :: "database \<Rightarrow> task \<Rightarrow> uuid \<Rightarrow> database" where
  "reassign db transfer employee_id =
     db \<lparr> tasks := map (\<lambda>t. if task_id t = task_id transfer
                               then t \<lparr> assigned_to := Some employee_id \<rparr> else t)
                        (tasks db) \<rparr>"

definition make_suggestion :: "task \<Rightarrow> workload \<Rightarrow> workload \<Rightarrow> transfer_suggestion" where
  "make_suggestion transfer overloaded underloaded =
     \<lparr> ts_task_id = task_id transfer,
       ts_task_title = title transfer,
       from_employee = wl_employee_name overloaded,
       to_employee = wl_employee_name underloaded,
       ts_priority_score = priority_score transfer,
       ts_estimated_effort = estimated_effort transfer \<rparr>"

text \<open>
  The \<^verbatim>\<open>while True\<close> loop of \<open>redistribute_tasks\<close>, with the database, the sorted
  workloads and the suggestions made so far as its state. \<open>workloads[0]\<close> raises
  \<open>IndexError\<close> on an empty list.
\<close>

function redistribute_loop ::
  "dialect \<Rightarrow> database \<Rightarrow> employee list \<Rightarrow> bool \<Rightarrow> workload list
     \<Rightarrow> transfer_suggestion list \<Rightarrow> error + (database \<times> transfer_suggestion list)" where
  "redistribute_loop backend db emps auto_assign workloads suggestions =
     (case workloads of
        [] \<Rightarrow> Inl IndexError
      | overloaded # rest \<Rightarrow>
          (let underloaded = last workloads
           in if global_score overloaded < 1.5 * global_score underloaded then
                Inr (db, suggestions)
              else
                (case find_transferable_task backend db (wl_employee_id overloaded)
                        (wl_employee_id underloaded) of
                   Inl e \<Rightarrow> Inl e
                 | Inr None \<Rightarrow> Inr (db, suggestions)
                 | Inr (Some transfer) \<Rightarrow>
                     (let suggestions' =
                            suggestions @ [make_suggestion transfer overloaded underloaded];
                          db' = (if auto_assign
                                 then reassign db transfer (wl_employee_id underloaded)
                                 else db)
                      in case team_workloads db' emps of
                           Inl e \<Rightarrow> Inl e
                         | Inr ws \<Rightarrow>
                             if length suggestions' \<ge> 10 then Inr (db', suggestions')
                             else redistribute_loop backend db' emps auto_assign (sort_desc ws)
                                    suggestions'))))"
  by pat_completeness auto
termination
  by (relation "measure (\<lambda>(backend, db, emps, auto_assign, workloads, suggestions).
                           10 - length suggestions)")
     auto

definition redistribute_tasks ::
  "dialect \<Rightarrow> database \<Rightarrow> uuid \<Rightarrow> bool
     \<Rightarrow> error + (database \<times> transfer_suggestion list)" where
  "redistribute_tasks backend db tid auto_assign =
     (case find (\<lambda>t. team_id t = tid) (teams db) of
        None \<Rightarrow> Inl (ValueError ''Team not found'')
      | Some team \<Rightarrow>
          (let emps = team_members db tid
           in if length emps < 2 then Inr (db, [])
              else
                (case team_workloads db emps of
                   Inl e \<Rightarrow> Inl e
                 | Inr ws \<Rightarrow>
                     redistribute_loop backend db emps auto_assign (sort_desc ws) [])))"

section \<open>Task prioritization service\<close>

definition w_urgency :: real where "w_urgency = 0.3"
definition w_deadline :: real where "w_deadline = 0.25"
definition w_effort :: real where "w_effort = 0.2"
definition w_productivity :: real where "w_productivity = 0.15"
definition w_dependencies :: real where "w_dependencies = 0.1"

text \<open>
  \<open>timedelta.days\<close> is the floor of the difference in days; the current time is a
  parameter of the model.
\<close>

definition normalize_deadline :: "datetime \<Rightarrow> datetime option \<Rightarrow> real" where
  "normalize_deadline now dl =
     (case dl of
        None \<Rightarrow> 0.3
      | Some d \<Rightarrow>
          (let days_until = (d - now) div 86400000000
           in if days_until < 0 then 1
              else if days_until = 0 then 0.95
              else if days_until \<le> 2 then 0.8
              else if days_until \<le> 7 then 0.6
              else if days_until \<le> 14 then 0.4
              else 0.2))"

text \<open>\<^verbatim>\<open>if not estimated_effort\<close> holds for \<open>None\<close> and for \<open>0.0\<close>.\<close>

definition normalize_effort :: "real option \<Rightarrow> real" where
  "normalize_effort effort =
     (case effort of
        None \<Rightarrow> 0.5
      | Some e \<Rightarrow>
          if e = 0 then 0.5
          else if 2 \<le> e \<and> e \<le> 4 then 1
          else if e < 2 then 0.7 + (e / 2) * 0.3
          else if e \<le> 8 then 1 - ((e - 4) / 4) * 0.3
          else 0.4)"

definition get_productivity_at_time :: "employee \<Rightarrow> datetime \<Rightarrow> real" where
  "get_productivity_at_time emp time =
     (let hour = (time div 3600000000) mod 24;
          period = (if 6 \<le> hour \<and> hour < 12 then ''morning''
                    else if 12 \<le> hour \<and> hour < 18 then ''afternoon''
                    else ''evening'')
      in case productivity_periods emp period of None \<Rightarrow> 0.7 | Some v \<Rightarrow> v)"

definition calculate_priority_score :: "datetime \<Rightarrow> task \<Rightarrow> employee \<Rightarrow> real" where
  "calculate_priority_score now t emp =
     (let urgency_norm = real_of_int (urgency t) / 5;
          deadline_norm = normalize_deadline now (deadline t);
          effort_norm = normalize_effort (estimated_effort t);
          productivity_norm = get_productivity_at_time emp now;
          dependency_score = (case dependencies t of Some (d # ds) \<Rightarrow> 1 | _ \<Rightarrow> 0.5);
          score = w_urgency * urgency_norm + w_deadline * deadline_norm
                  + w_effort * effort_norm + w_productivity * productivity_norm
                  + w_dependencies * dependency_score
      in min (max score 0) 1)"

section \<open>Recognition service\<close>

text \<open>
  \<open>track_achievement\<close> stores a new achievement; the columns it does not set take
  their defaults (\<open>recognized_by_manager = False\<close>, no note). The identifier the
  database gives the row is a parameter.
\<close>

definition track_achievement ::
  "database \<Rightarrow> uuid \<Rightarrow> uuid \<Rightarrow> achievement_type \<Rightarrow> string \<Rightarrow> real \<Rightarrow> uuid option
     \<Rightarrow> database \<times> achievement" where
  "track_achievement db new_id employee_id atype descr impact task_ref =
     (let a = \<lparr> ach_id = new_id, ach_employee_id = employee_id, ach_type = atype,
                description = descr, impact_score = impact,
                recognized_by_manager = False, recognition_note = None,
                related_task_id = task_ref \<rparr>
      in (db \<lparr> achievements := achievements db @ [a] \<rparr>, a))"

definition manager_recognition ::
  "database \<Rightarrow> uuid \<Rightarrow> string \<Rightarrow> error + (database \<times> achievement)" where
  "manager_recognition db achievement_id note =
     (case find (\<lambda>a. ach_id a = achievement_id) (achievements db) of
        None \<Rightarrow> Inl (ValueError ''Achievement not found'')
      | Some a \<Rightarrow>
          (let a' = a \<lparr> recognized_by_manager := True, recognition_note := Some note \<rparr>
           in Inr (db \<lparr> achievements :=
                          update_first (\<lambda>a. ach_id a = achievement_id) (\<lambda>_. a')
                            (achievements db) \<rparr>,
                   a')))"

section \<open>IEEE double arithmetic\<close>





















subsection \<open>The equity score in doubles\<close>



subsection \<open>The risk score in doubles\<close>













section \<open>Example data\<close>

definition mk_metric ::
  "uuid \<Rightarrow> date \<Rightarrow> real \<Rightarrow> real \<Rightarrow> int \<Rightarrow> real \<Rightarrow> real option \<Rightarrow> burnout_metric" where
  "mk_metric e d h c s r se =
     \<lparr> bm_employee_id = e, bm_date = d, hours_worked = h, breaks_taken = 0,
       cognitive_load = c, social_interactions = s, task_completion_rate = r,
       sentiment_score = se, risk_score = None \<rparr>"

definition db_of_metrics :: "burnout_metric list \<Rightarrow> database" where
  "db_of_metrics ms =
     \<lparr> teams = [], employees = [], tasks = [], burnout_metrics = ms, achievements = [] \<rparr>"

text \<open>Employee 1 on day 0: twelve hours, full cognitive load, one interaction, half of
  the tasks completed, sentiment \<open>-1\<close>. The risk score is \<open>0.95\<close>.\<close>

definition db_critical :: database where
  "db_critical = db_of_metrics [mk_metric 1 0 12 1 1 0.5 (Some (-1))]"

text \<open>Employee 1 on day 0: nine hours, cognitive load \<open>0.0\<close>, four interactions,
  completion rate \<open>0.0\<close>, no sentiment.\<close>

definition db_zero_means :: database where
  "db_zero_means = db_of_metrics [mk_metric 1 0 9 0 4 0 None]"

text \<open>Employee 1 has one row thirty days old, employee 2 has a row of today.\<close>

definition db_stale :: database where
  "db_stale = db_of_metrics [mk_metric 1 (-30) 12 1 0 0 None, mk_metric 2 0 12 1 0 0 None]"

definition db_empty :: database where
  "db_empty =
     \<lparr> teams = [], employees = [], tasks = [], burnout_metrics = [], achievements = [] \<rparr>"

text \<open>Two calls of \<open>update_daily_metric\<close> for employee 1 and day 0, made on day 0:
  eight hours, two breaks and sentiment \<open>0.5\<close>; then ten hours, one break and no
  sentiment.\<close>

definition db_after_first_call :: database where
  "db_after_first_call = fst (update_daily_metric db_empty 0 1 8 2 (Some 0.5) (Some 0))"

definition second_call :: "database \<times> burnout_metric" where
  "second_call = update_daily_metric db_after_first_call 0 1 10 1 None None"

text \<open>A team of two. In \<open>db_backlog\<close> Ada holds one pending task without
  dependencies and Bob holds nothing; \<open>db_no_members\<close> is a team without members.\<close>

definition mk_employee :: "uuid \<Rightarrow> string \<Rightarrow> uuid \<Rightarrow> employee" where
  "mk_employee i n t =
     \<lparr> emp_id = i, emp_name = n, emp_team_id = Some t, productivity_periods = Map.empty \<rparr>"

definition mk_task :: "uuid \<Rightarrow> string \<Rightarrow> uuid \<Rightarrow> real \<Rightarrow> real \<Rightarrow> task" where
  "mk_task i ttl e eff prio =
     \<lparr> task_id = i, title = ttl, assigned_to = Some e, urgency = 3, deadline = None,
       estimated_effort = Some eff, status = Pending, priority_score = Some prio,
       dependencies = Some [] \<rparr>"

definition core_team :: team where
  "core_team = \<lparr> team_id = 1, team_name = ''core'' \<rparr>"

definition db_team :: "task list \<Rightarrow> database" where
  "db_team ts =
     \<lparr> teams = [core_team],
       employees = [mk_employee 1 ''Ada'' 1, mk_employee 2 ''Bob'' 1],
       tasks = ts, burnout_metrics = [], achievements = [] \<rparr>"

definition db_backlog :: database where
  "db_backlog = db_team [mk_task 10 ''report'' 1 4 0.5]"

definition db_no_members :: database where
  "db_no_members =
     \<lparr> teams = [core_team], employees = [], tasks = [], burnout_metrics = [],
       achievements = [] \<rparr>"

definition report_suggestion :: transfer_suggestion where
  "report_suggestion =
     \<lparr> ts_task_id = 10, ts_task_title = ''report'', from_employee = ''Ada'',
       to_employee = ''Bob'', ts_priority_score = Some 0.5, ts_estimated_effort = Some 4 \<rparr>"

text \<open>One achievement, not yet recognized.\<close>

definition db_achievement :: database where
  "db_achievement =
     fst (track_achievement db_empty 7 1 Deliverable ''shipped'' 0.8 None)"

text \<open>On day 0, \<open>update_daily_metric\<close> is called for employee 1 with the date of
  day 5: the only row of the employee is dated after today.\<close>

definition db_future :: database where
  "db_future = fst (update_daily_metric db_empty 0 1 12 0 (Some (-1)) (Some 5))"







lemmas team_defs = db_team_def core_team_def mk_task_def mk_employee_def

lemmas metric_defs = mk_metric_def db_of_metrics_def

lemmas workload_defs =
  team_members_def team_workloads_def calculate_employee_workload_def is_active_def
  py_or_def alpha_def beta_def sort_desc_def find_transferable_task_def transferable_def
  transfer_before_def make_suggestion_def

lemmas risk_defs =
  calculate_risk_score_def get_recent_metrics_def sql_avg_def in_window_def py_or_def
  normalize_hours_def normalize_isolation_def normalize_sentiment_def
  w_hours_def w_cognitive_def w_isolation_def w_completion_def w_sentiment_def

section \<open>Risk engine: the risk score\<close>

lemma calculate_risk_score_no_rows:
  assumes "filter (in_window employee_id (today - days)) (burnout_metrics db) = []"
  shows "calculate_risk_score db today employee_id days = 0"
  using assms by (simp add: calculate_risk_score_def get_recent_metrics_def sql_avg_def)

text \<open>
  Claim C3 (as stated, refuted). In \<open>db_future\<close> the only row of employee 1 is dated
  day 5. On day 0 the window from day \<open>-7\<close> to day 0 holds no row of the employee,
  and the risk score over 7 days is \<open>0.655\<close>, not \<open>0.0\<close>: the query has no upper
  bound. And with a lookback of a thousand million days, or of 740000 days, the call
  raises \<open>OverflowError\<close>.
\<close>

theorem calculate_risk_score_future_row:
  "filter (in_spec_window 1 0 7) (burnout_metrics db_future) = []
   \<and> calculate_risk_score_call db_future 0 1 7 = Inr 0.655
   \<and> calculate_risk_score_call db_empty 0 1 1000000000 = Inl OverflowError
   \<and> calculate_risk_score_call db_empty 0 1 740000 = Inl OverflowError"
  by (simp add: db_future_def update_daily_metric_def db_empty_def same_day_def
        in_spec_window_def calculate_risk_score_call_def cutoff_date_def date_min_def
        date_max_def risk_defs Let_def)

text \<open>
  Claim C3 (amended). For every employee and lookback whose cutoff date
  \<open>today - days\<close> exists, when the employee has no metric row dated at or after the
  cutoff (a row dated after today counts as in the window), \<open>calculate_risk_score\<close>
  returns exactly \<open>0.0\<close> and does not raise.
\<close>

theorem calculate_risk_score_no_rows_from_cutoff:
  assumes "cutoff_date today days = Inr cutoff"
    and "filter (in_window employee_id cutoff) (burnout_metrics db) = []"
  shows "calculate_risk_score_call db today employee_id days = Inr 0"
proof -
  from assms(1) have "cutoff = today - days"
    by (simp add: cutoff_date_def split: if_splits)
  with assms(2) have "calculate_risk_score db today employee_id days = 0"
    by (simp add: calculate_risk_score_no_rows)
  with assms(1) show ?thesis by (simp add: calculate_risk_score_call_def)
qed

theorem calculate_risk_score_no_rows_from_cutoff_witness:
  "cutoff_date 0 7 = Inr (- 7)
   \<and> filter (in_window 1 (- 7)) (burnout_metrics db_stale) = []
   \<and> burnout_metrics db_stale \<noteq> []
   \<and> calculate_risk_score_call db_stale 0 1 7 = Inr 0"
proof -
  have c: "cutoff_date 0 7 = Inr (- 7)"
    by (simp add: cutoff_date_def date_min_def date_max_def)
  have h: "filter (in_window 1 (- 7)) (burnout_metrics db_stale) = []"
    by (simp add: db_stale_def metric_defs in_window_def)
  have "burnout_metrics db_stale \<noteq> []"
    by (simp add: db_stale_def metric_defs)
  with c h calculate_risk_score_no_rows_from_cutoff [OF c h] show ?thesis by simp
qed

text \<open>Where an average is not zero, \<^verbatim>\<open>avg or default\<close> is the average.\<close>

lemma py_or_nonzero: "v \<noteq> 0 \<Longrightarrow> py_or (Some v) d = v"
  by (simp add: py_or_def)

lemma py_or_zero: "py_or (Some 0) d = d"
  by (simp add: py_or_def)

text \<open>
  Claim C2 (the code departs from it). \<open>_get_recent_metrics\<close> passes every average
  through \<^verbatim>\<open>avg or default\<close>, and a mean of \<open>0.0\<close> is falsy. On a single row
  with cognitive load \<open>0.0\<close> and completion rate \<open>0.0\<close> the cognitive factor is the
  default \<open>0.5\<close>, not the mean \<open>0.0\<close>, and the completion deficit is
  \<open>1 - 1.0 = 0.0\<close>, not \<open>1.0\<close>; the risk score is \<open>0.43\<close> where the means
  used directly give \<open>0.405\<close>.
\<close>

theorem zero_means_replaced_by_defaults:
  "sql_avg (map (\<lambda>m. Some (cognitive_load m)) (burnout_metrics db_zero_means)) = Some 0
   \<and> sql_avg (map (\<lambda>m. Some (task_completion_rate m)) (burnout_metrics db_zero_means)) = Some 0
   \<and> map_option avg_cognitive_load (get_recent_metrics db_zero_means 0 1 7) = Some 0.5
   \<and> map_option (\<lambda>m. 1 - avg_task_completion_rate m) (get_recent_metrics db_zero_means 0 1 7)
       = Some 0
   \<and> calculate_risk_score db_zero_means 0 1 7 = 0.43"
  by (simp add: risk_defs db_zero_means_def metric_defs Let_def)

section \<open>Risk engine: the daily metric upsert\<close>

text \<open>The risk score does not read the \<open>risk_score\<close> column.\<close>

lemma map_filter_strip:
  assumes "map strip_risk A = map strip_risk B"
    and g: "\<And>m. g (strip_risk m) = g m" and f: "\<And>m. f (strip_risk m) = f m"
  shows "map f (filter g A) = map f (filter g B)"
proof -
  have *: "map f (filter g X) = map f (filter g (map strip_risk X))" for X
    by (induction X) (simp_all add: g f)
  show ?thesis using assms(1) *[of A] *[of B] by simp
qed

lemma get_recent_metrics_strip:
  assumes "map strip_risk (burnout_metrics db) = map strip_risk (burnout_metrics db')"
  shows "get_recent_metrics db today e days = get_recent_metrics db' today e days"
proof -
  let ?g = "in_window e (today - days)"
  have g: "\<And>m. ?g (strip_risk m) = ?g m" by (simp add: in_window_def strip_risk_def)
  have 1: "map (\<lambda>m. Some (hours_worked m)) (filter ?g (burnout_metrics db)) = map (\<lambda>m. Some (hours_worked m)) (filter ?g (burnout_metrics db'))"
    by (rule map_filter_strip[where g = ?g, OF assms g]) (simp add: strip_risk_def)
  have 2: "map (\<lambda>m. Some (cognitive_load m)) (filter ?g (burnout_metrics db)) = map (\<lambda>m. Some (cognitive_load m)) (filter ?g (burnout_metrics db'))"
    by (rule map_filter_strip[where g = ?g, OF assms g]) (simp add: strip_risk_def)
  have 3: "map (\<lambda>m. Some (real_of_int (social_interactions m))) (filter ?g (burnout_metrics db)) = map (\<lambda>m. Some (real_of_int (social_interactions m))) (filter ?g (burnout_metrics db'))"
    by (rule map_filter_strip[where g = ?g, OF assms g]) (simp add: strip_risk_def)
  have 4: "map (\<lambda>m. Some (task_completion_rate m)) (filter ?g (burnout_metrics db)) = map (\<lambda>m. Some (task_completion_rate m)) (filter ?g (burnout_metrics db'))"
    by (rule map_filter_strip[where g = ?g, OF assms g]) (simp add: strip_risk_def)
  have 5: "map sentiment_score (filter ?g (burnout_metrics db)) = map sentiment_score (filter ?g (burnout_metrics db'))"
    by (rule map_filter_strip[where g = ?g, OF assms g]) (simp add: strip_risk_def)
  show ?thesis
    unfolding get_recent_metrics_def Let_def 1 2 3 4 5 ..
qed

lemma calculate_risk_score_strip:
  assumes "map strip_risk (burnout_metrics db) = map strip_risk (burnout_metrics db')"
  shows "calculate_risk_score db today e days = calculate_risk_score db' today e days"
  by (simp add: calculate_risk_score_def get_recent_metrics_strip[OF assms])

lemma find_filter: "find P xs = (case filter P xs of [] \<Rightarrow> None | x # _ \<Rightarrow> Some x)"
  by (induction xs) simp_all

lemma filter_update_first:
  "P y \<Longrightarrow> filter P (update_first P (\<lambda>_. y) xs) = (case filter P xs of [] \<Rightarrow> [] | _ # r \<Rightarrow> y # r)"
  by (induction xs) simp_all

lemma strip_update_first:
  "find P xs = Some x \<Longrightarrow> strip_risk y = strip_risk x \<Longrightarrow> map strip_risk (update_first P (\<lambda>_. y) xs) = map strip_risk xs"
  by (induction xs) (auto split: if_splits)

lemma find_append_new: "find P xs = None \<Longrightarrow> P m \<Longrightarrow> find P (xs @ [m]) = Some m"
  by (induction xs) (auto split: if_splits)

lemma find_update_first: "find P xs = Some x \<Longrightarrow> P y \<Longrightarrow> find P (update_first P (\<lambda>_. y) xs) = Some y"
  by (induction xs) (auto split: if_splits)


lemma find_Some_P: "find P xs = Some x \<Longrightarrow> P x"
  by (induction xs) (auto split: if_splits)

lemma udm_unfold:
  assumes "update_daily_metric db today e h b s (Some d) = (db', m')"
  shows "\<exists>rows1 metric.
           find (same_day e d) rows1 = Some metric
         \<and> filter (same_day e d) rows1 = metric # tl (filter (same_day e d) (burnout_metrics db))
         \<and> hours_worked metric = h \<and> breaks_taken metric = b
         \<and> sentiment_score metric =
             (case s of Some v \<Rightarrow> Some v
              | None \<Rightarrow> (case filter (same_day e d) (burnout_metrics db) of
                           [] \<Rightarrow> None | x # _ \<Rightarrow> sentiment_score x))
         \<and> m' = metric \<lparr> risk_score :=
                    Some (calculate_risk_score (db \<lparr> burnout_metrics := rows1 \<rparr>) today e 7) \<rparr>
         \<and> db' = db \<lparr> burnout_metrics := update_first (same_day e d) (\<lambda>_. m') rows1 \<rparr>"
proof (cases "find (same_day e d) (burnout_metrics db)")
  case None
  then have F: "filter (same_day e d) (burnout_metrics db) = []"
    by (simp add: find_filter split: list.splits)
  define m where "m = \<lparr> bm_employee_id = e, bm_date = d,
                            hours_worked = h, breaks_taken = b,
                            cognitive_load = 0.5, social_interactions = 0,
                            task_completion_rate = 1, sentiment_score = s,
                            risk_score = None \<rparr>"
  have P: "same_day e d m" by (simp add: m_def same_day_def)
  have 1: "find (same_day e d) (burnout_metrics db @ [m]) = Some m"
    using None P by (rule find_append_new)
  have 2: "filter (same_day e d) (burnout_metrics db @ [m]) = m # tl (filter (same_day e d) (burnout_metrics db))"
    using F P by simp
  have 3: "sentiment_score m = (case s of Some v \<Rightarrow> Some v
              | None \<Rightarrow> (case filter (same_day e d) (burnout_metrics db) of
                           [] \<Rightarrow> None | x # _ \<Rightarrow> sentiment_score x))"
    using F by (simp add: m_def split: option.split)
  have 4: "hours_worked m = h \<and> breaks_taken m = b" by (simp add: m_def)
  from assms None have 5: "m' = m \<lparr> risk_score :=
                    Some (calculate_risk_score (db \<lparr> burnout_metrics := burnout_metrics db @ [m] \<rparr>) today e 7) \<rparr>"
    and 6: "db' = db \<lparr> burnout_metrics := update_first (same_day e d) (\<lambda>_. m') (burnout_metrics db @ [m]) \<rparr>"
    by (auto simp add: update_daily_metric_def Let_def m_def)
  from 1 2 3 4 5 6 show ?thesis by blast
next
  case (Some x)
  then obtain r where F: "filter (same_day e d) (burnout_metrics db) = x # r"
    by (auto simp add: find_filter split: list.splits)
  have Px: "same_day e d x" using Some by (rule find_Some_P)
  define m where "m = x \<lparr> hours_worked := h, breaks_taken := b,
                          sentiment_score := (case s of None \<Rightarrow> sentiment_score x | Some v \<Rightarrow> Some v) \<rparr>"
  define rows1 where "rows1 = update_first (same_day e d) (\<lambda>_. m) (burnout_metrics db)"
  have P: "same_day e d m" using Px by (simp add: m_def same_day_def)
  have 1: "find (same_day e d) rows1 = Some m"
    unfolding rows1_def using Some P by (rule find_update_first)
  have 2: "filter (same_day e d) rows1 = m # tl (filter (same_day e d) (burnout_metrics db))"
    unfolding rows1_def using F by (simp add: filter_update_first[where P = "same_day e d", OF P])
  have 3: "sentiment_score m = (case s of Some v \<Rightarrow> Some v
              | None \<Rightarrow> (case filter (same_day e d) (burnout_metrics db) of
                           [] \<Rightarrow> None | x # _ \<Rightarrow> sentiment_score x))"
    using F by (simp add: m_def split: option.split)
  have 4: "hours_worked m = h \<and> breaks_taken m = b" by (simp add: m_def)
  from assms Some have 5: "m' = m \<lparr> risk_score :=
                    Some (calculate_risk_score (db \<lparr> burnout_metrics := rows1 \<rparr>) today e 7) \<rparr>"
    and 6: "db' = db \<lparr> burnout_metrics := update_first (same_day e d) (\<lambda>_. m') rows1 \<rparr>"
    by (auto simp add: update_daily_metric_def Let_def m_def rows1_def)
  from 1 2 3 4 5 6 show ?thesis by blast
qed


lemma update_daily_metric_date:
  "update_daily_metric db today e h b s md =
   update_daily_metric db today e h b s (Some (case md of None \<Rightarrow> today | Some d \<Rightarrow> d))"
  by (simp add: update_daily_metric_def split: option.split)

text \<open>
  One call: the rows of the employee and date are the returned row followed by the
  rows after the first that were there before; the returned row carries the hours and
  breaks of the call, its sentiment when it gives one (else the sentiment the row
  had), and the risk score of the resulting table.
\<close>

lemma update_daily_metric_row:
  assumes "update_daily_metric db today e h b s (Some d) = (db', m')"
  shows "filter (same_day e d) (burnout_metrics db')
           = m' # tl (filter (same_day e d) (burnout_metrics db))
    \<and> hours_worked m' = h \<and> breaks_taken m' = b
    \<and> sentiment_score m' =
        (case s of Some v \<Rightarrow> Some v
         | None \<Rightarrow> (case filter (same_day e d) (burnout_metrics db) of
                      [] \<Rightarrow> None | x # _ \<Rightarrow> sentiment_score x))
    \<and> risk_score m' = Some (calculate_risk_score db' today e 7)"
proof -
  from udm_unfold[OF assms] obtain rows1 metric where
      f: "find (same_day e d) rows1 = Some metric"
    and fl: "filter (same_day e d) rows1
               = metric # tl (filter (same_day e d) (burnout_metrics db))"
    and hb: "hours_worked metric = h" "breaks_taken metric = b"
    and se: "sentiment_score metric =
             (case s of Some v \<Rightarrow> Some v
              | None \<Rightarrow> (case filter (same_day e d) (burnout_metrics db) of
                           [] \<Rightarrow> None | x # _ \<Rightarrow> sentiment_score x))"
    and m': "m' = metric \<lparr> risk_score :=
                    Some (calculate_risk_score (db \<lparr> burnout_metrics := rows1 \<rparr>) today e 7) \<rparr>"
    and db': "db' = db \<lparr> burnout_metrics := update_first (same_day e d) (\<lambda>_. m') rows1 \<rparr>"
    by blast
  have P: "same_day e d m'" using find_Some_P[OF f] by (simp add: m' same_day_def)
  have 1: "filter (same_day e d) (burnout_metrics db')
             = m' # tl (filter (same_day e d) (burnout_metrics db))"
    by (simp add: db' filter_update_first[where P = "same_day e d", OF P] fl)
  have st: "strip_risk m' = strip_risk metric" by (simp add: m' strip_risk_def)
  have "map strip_risk (burnout_metrics db')
          = map strip_risk (burnout_metrics (db \<lparr> burnout_metrics := rows1 \<rparr>))"
    using strip_update_first[OF f st] by (simp add: db')
  then have "calculate_risk_score db' today e 7
               = calculate_risk_score (db \<lparr> burnout_metrics := rows1 \<rparr>) today e 7"
    by (rule calculate_risk_score_strip)
  then have 2: "risk_score m' = Some (calculate_risk_score db' today e 7)"
    by (simp add: m')
  from 1 2 hb se show ?thesis by (simp add: m')
qed

text \<open>
  Claim C5 (as stated, refuted). After a first call with sentiment \<open>0.5\<close> and a
  second call for the same employee and date that gives no sentiment, the stored row
  has the hours and breaks of the second call and still the sentiment of the first:
  the sentiment does not reflect the latest call.
\<close>

theorem update_daily_metric_keeps_sentiment:
  "hours_worked (snd second_call) = 10
   \<and> breaks_taken (snd second_call) = 1
   \<and> sentiment_score (snd second_call) = Some 0.5
   \<and> sentiment_score (snd second_call) \<noteq> None"
  by (simp add: second_call_def db_after_first_call_def update_daily_metric_def
        db_empty_def same_day_def Let_def)

text \<open>
  Claim C5 (amended). Let the table hold at most one row for the employee and the
  date. After two calls of \<open>update_daily_metric\<close> for that employee and date the
  table holds exactly one such row, the row the second call returns; its hours and
  breaks are those of the second call; its sentiment is that of the second call when
  the second call gives one, and otherwise the sentiment the row had after the first
  call; its risk score is the seven-day risk score of the resulting table.
\<close>

theorem update_daily_metric_twice:
  assumes "length (filter (same_day e d) (burnout_metrics db)) \<le> 1"
    and "(case md1 of None \<Rightarrow> t1 | Some x \<Rightarrow> x) = d"
    and "(case md2 of None \<Rightarrow> t2 | Some x \<Rightarrow> x) = d"
    and "update_daily_metric db t1 e h1 b1 s1 md1 = (db1, m1)"
    and "update_daily_metric db1 t2 e h2 b2 s2 md2 = (db2, m2)"
  shows "filter (same_day e d) (burnout_metrics db2) = [m2]
    \<and> hours_worked m2 = h2 \<and> breaks_taken m2 = b2
    \<and> sentiment_score m2 = (case s2 of Some v \<Rightarrow> Some v | None \<Rightarrow> sentiment_score m1)
    \<and> risk_score m2 = Some (calculate_risk_score db2 t2 e 7)"
proof -
  from assms(2,4) have c1: "update_daily_metric db t1 e h1 b1 s1 (Some d) = (db1, m1)"
    using update_daily_metric_date[of db t1 e h1 b1 s1 md1] by simp
  from assms(3,5) have c2: "update_daily_metric db1 t2 e h2 b2 s2 (Some d) = (db2, m2)"
    using update_daily_metric_date[of db1 t2 e h2 b2 s2 md2] by simp
  from assms(1) have "tl (filter (same_day e d) (burnout_metrics db)) = []"
    by (cases "filter (same_day e d) (burnout_metrics db)") simp_all
  with update_daily_metric_row[OF c1]
  have r1: "filter (same_day e d) (burnout_metrics db1) = [m1]" by simp
  from update_daily_metric_row[OF c2] r1 show ?thesis
    by (auto split: option.split)
qed

theorem update_daily_metric_twice_witness:
  "length (filter (same_day 1 0) (burnout_metrics db_empty)) \<le> 1
   \<and> filter (same_day 1 0) (burnout_metrics (fst second_call)) = [snd second_call]
   \<and> hours_worked (snd second_call) = 10
   \<and> breaks_taken (snd second_call) = 1
   \<and> sentiment_score (snd second_call) = Some 0.5
   \<and> risk_score (snd second_call) = Some (calculate_risk_score (fst second_call) 0 1 7)"
proof -
  have h: "length (filter (same_day 1 0) (burnout_metrics db_empty)) \<le> 1"
    by (simp add: db_empty_def)
  have c1: "update_daily_metric db_empty 0 1 8 2 (Some 0.5) (Some 0)
              = (db_after_first_call,
                 snd (update_daily_metric db_empty 0 1 8 2 (Some 0.5) (Some 0)))"
    by (simp add: db_after_first_call_def)
  have c2: "update_daily_metric db_after_first_call 0 1 10 1 None None
              = (fst second_call, snd second_call)"
    by (simp add: second_call_def)
  have s1: "sentiment_score (snd (update_daily_metric db_empty 0 1 8 2 (Some 0.5) (Some 0)))
              = Some 0.5"
    by (simp add: update_daily_metric_def db_empty_def same_day_def Let_def)
  have "filter (same_day 1 0) (burnout_metrics (fst second_call)) = [snd second_call]
    \<and> hours_worked (snd second_call) = 10 \<and> breaks_taken (snd second_call) = 1
    \<and> sentiment_score (snd second_call)
        = (case None of Some v \<Rightarrow> Some v
           | None \<Rightarrow> sentiment_score
                       (snd (update_daily_metric db_empty 0 1 8 2 (Some 0.5) (Some 0))))
    \<and> risk_score (snd second_call) = Some (calculate_risk_score (fst second_call) 0 1 7)"
    by (rule update_daily_metric_twice[OF h _ _ c1 c2]) simp_all
  with h s1 show ?thesis
    by simp
qed

section \<open>Risk engine: interventions\<close>

text \<open>
  Claim C1 (as stated, refuted). At a risk score of \<open>0.95\<close> the code blocks new
  tasks and alerts the manager (critical) and does nothing else: neither the high
  alert, nor the delegation suggestion, nor the micro-breaks fire.
\<close>

theorem trigger_interventions_no_cascade:
  "calculate_risk_score db_critical 0 1 7 \<ge> 0.9
   \<and> trigger_interventions db_critical 0 1 = [BlockNewTasks 1, AlertManager 1 ''critical'']
   \<and> AlertManager 1 ''high'' \<notin> set (trigger_interventions db_critical 0 1)
   \<and> suggest_delegation db_critical 1 \<notin> set (trigger_interventions db_critical 0 1)
   \<and> InsertMicroBreaks 1 \<notin> set (trigger_interventions db_critical 0 1)"
proof -
  have r: "calculate_risk_score db_critical 0 1 7 = 0.95"
    by (simp add: risk_defs db_critical_def metric_defs Let_def)
  then show ?thesis
    by (simp add: trigger_interventions_def suggest_delegation_def)
qed

text \<open>
  Claim C1 (amended). \<open>trigger_interventions\<close> is an exclusive chain: with \<open>r\<close>
  the seven-day risk score, exactly the actions of the highest band reached fire.
  Blocking and the critical alert fire when \<open>r \<ge> 0.9\<close>; the high alert when
  \<open>0.8 \<le> r < 0.9\<close>; the delegation suggestion when \<open>0.7 \<le> r < 0.9\<close>; the
  micro-breaks when \<open>0.5 \<le> r < 0.7\<close>; nothing below \<open>0.5\<close>.
\<close>

theorem trigger_interventions_bands:
  "trigger_interventions db today e =
     (if calculate_risk_score db today e 7 \<ge> 0.9
      then [BlockNewTasks e, AlertManager e ''critical''] else [])
     @ (if 0.8 \<le> calculate_risk_score db today e 7 \<and> calculate_risk_score db today e 7 < 0.9
        then [AlertManager e ''high''] else [])
     @ (if 0.7 \<le> calculate_risk_score db today e 7 \<and> calculate_risk_score db today e 7 < 0.9
        then [suggest_delegation db e] else [])
     @ (if 0.5 \<le> calculate_risk_score db today e 7 \<and> calculate_risk_score db today e 7 < 0.7
        then [InsertMicroBreaks e] else [])"
  by (simp add: trigger_interventions_def Let_def)

theorem trigger_interventions_bands_witness:
  "calculate_risk_score db_critical 0 1 7 = 0.95
   \<and> trigger_interventions db_critical 0 1 = [BlockNewTasks 1, AlertManager 1 ''critical'']"
proof -
  have r: "calculate_risk_score db_critical 0 1 7 = 0.95"
    by (simp add: risk_defs db_critical_def metric_defs Let_def)
  with trigger_interventions_bands [of db_critical 0 1] show ?thesis
    by simp
qed

section \<open>Equity engine: the team equity score\<close>

lemma collect_map_Inr:
  assumes "\<forall>x\<in>set xs. \<exists>v. f x = Inr v \<and> Q v"
  shows "\<exists>vs. collect (map f xs) = Inr vs \<and> length vs = length xs \<and> (\<forall>v\<in>set vs. Q v)"
  using assms
proof (induction xs)
  case Nil
  then show ?case by simp
next
  case (Cons x xs)
  then obtain v where v: "f x = Inr v" "Q v" by auto
  from Cons obtain vs where vs: "collect (map f xs) = Inr vs" "length vs = length xs" "\<forall>v\<in>set vs. Q v"
    by auto
  from v vs show ?case by simp
qed

lemma find_member:
  "emp \<in> set emps \<Longrightarrow> \<exists>x. find (\<lambda>e. emp_id e = emp_id emp) emps = Some x"
  by (induction emps) auto

lemma workload_defined:
  assumes "emp \<in> set (employees db)"
  shows "\<exists>w. calculate_employee_workload db (emp_id emp) = Inr w"
proof -
  from find_member[OF assms] obtain x where
    "find (\<lambda>e. emp_id e = emp_id emp) (employees db) = Some x" by blast
  then show ?thesis by (simp add: calculate_employee_workload_def Let_def)
qed

lemma team_workloads_defined:
  assumes "set emps \<subseteq> set (employees db)"
  shows "\<exists>ws. team_workloads db emps = Inr ws \<and> length ws = length emps"
proof -
  have "\<forall>emp\<in>set emps. \<exists>w. calculate_employee_workload db (emp_id emp) = Inr w \<and> True"
    using assms workload_defined by auto
  from collect_map_Inr[OF this] show ?thesis
    unfolding team_workloads_def by blast
qed

lemma sort_desc_length: "length (sort_desc ws) = length ws"
  by (simp add: sort_desc_def)

text \<open>
  Claim C8. For every team that exists and has no member, \<open>calculate_team_equity\<close>
  returns a response (it does not raise) with equity score exactly \<open>1.0\<close> and the
  one-element recommendation list \<open>No team members found\<close>.
\<close>

theorem empty_team_equity:
  assumes "find (\<lambda>t. team_id t = tid) (teams db) = Some team"
    and "team_members db tid = []"
  shows "\<exists>resp. calculate_team_equity db tid = Inr resp \<and> equity_score resp = 1
           \<and> recommendations resp = [''No team members found'']
           \<and> recommendations resp \<noteq> []"
  using assms by (simp add: calculate_team_equity_def Let_def)

theorem empty_team_equity_witness:
  "find (\<lambda>t. team_id t = 1) (teams db_no_members) = Some core_team
   \<and> team_members db_no_members 1 = []
   \<and> (\<exists>resp. calculate_team_equity db_no_members 1 = Inr resp \<and> equity_score resp = 1
           \<and> recommendations resp = [''No team members found'']
           \<and> recommendations resp \<noteq> [])"
proof -
  have t: "find (\<lambda>t. team_id t = 1) (teams db_no_members) = Some core_team"
    by (simp add: db_no_members_def core_team_def)
  have m: "team_members db_no_members 1 = []"
    by (simp add: db_no_members_def team_members_def)
  from t m empty_team_equity[OF t m] show ?thesis by blast
qed

section \<open>Double arithmetic: rounding\<close>













section \<open>Risk engine: the clamp in doubles\<close>







section \<open>Equity engine: the equity score in doubles\<close>











section \<open>Equity engine: redistribution\<close>

lemma reassign_employees: "employees (reassign db t e) = employees db"
  by (simp add: reassign_def)

lemma loop_unfold:
  "redistribute_loop backend db emps auto_assign (ov # rest) suggestions =
     (if global_score ov < 1.5 * global_score (last (ov # rest)) then Inr (db, suggestions)
      else case find_transferable_task backend db (wl_employee_id ov)
                  (wl_employee_id (last (ov # rest))) of
             Inl e \<Rightarrow> Inl e
           | Inr None \<Rightarrow> Inr (db, suggestions)
           | Inr (Some transfer) \<Rightarrow>
               (case team_workloads
                       (if auto_assign
                        then reassign db transfer (wl_employee_id (last (ov # rest)))
                        else db) emps of
                  Inl e \<Rightarrow> Inl e
                | Inr ws \<Rightarrow>
                    if length (suggestions @ [make_suggestion transfer ov (last (ov # rest))])
                         \<ge> 10
                    then Inr (if auto_assign
                              then reassign db transfer (wl_employee_id (last (ov # rest)))
                              else db,
                              suggestions @ [make_suggestion transfer ov (last (ov # rest))])
                    else redistribute_loop backend
                           (if auto_assign
                            then reassign db transfer (wl_employee_id (last (ov # rest)))
                            else db)
                           emps auto_assign (sort_desc ws)
                           (suggestions @ [make_suggestion transfer ov (last (ov # rest))])))"
  by (subst redistribute_loop.simps)
     (simp add: Let_def del: last.simps split: option.split sum.split)

text \<open>
  Where the query works (SQLite), the loop returns, and with at most ten
  suggestions: each round adds one, and the round that reaches ten is the last.
\<close>

lemma loop_bound:
  assumes "set emps \<subseteq> set (employees db)" and "workloads \<noteq> []" and "emps \<noteq> []"
    and "length suggestions < 10" and "backend = SQLite"
  shows "\<exists>db' s. redistribute_loop backend db emps auto_assign workloads suggestions
                    = Inr (db', s)
           \<and> length suggestions \<le> length s \<and> length s \<le> 10"
  using assms
proof (induction backend db emps auto_assign workloads suggestions
         rule: redistribute_loop.induct)
  case (1 backend db emps auto_assign workloads suggestions)
  note b = "1.prems"(5)
  from "1.prems"(2) obtain ov rest where w: "workloads = ov # rest"
    by (cases workloads) auto
  let ?under = "last workloads"
  let ?found = "first_ordered (filter (transferable (wl_employee_id ov)) (tasks db))"
  have q: "find_transferable_task backend db (wl_employee_id ov) (wl_employee_id ?under)
             = Inr ?found"
    by (simp add: find_transferable_task_def b)
  show ?case
  proof (cases "global_score ov < 1.5 * global_score ?under")
    case True
    with w "1.prems"(4) show ?thesis
      unfolding w by (subst loop_unfold) (simp del: last.simps)
  next
    case nb: False
    show ?thesis
    proof (cases ?found)
      case None
      with w nb q "1.prems"(4) show ?thesis
        unfolding w by (subst loop_unfold) (simp del: last.simps)
    next
      case (Some transfer)
      with q have q': "find_transferable_task backend db (wl_employee_id ov)
                         (wl_employee_id ?under) = Inr (Some transfer)"
        by simp
      let ?s' = "suggestions @ [make_suggestion transfer ov ?under]"
      let ?db' = "if auto_assign then reassign db transfer (wl_employee_id ?under) else db"
      have sub: "set emps \<subseteq> set (employees ?db')"
        using "1.prems"(1) by (simp add: reassign_employees)
      from team_workloads_defined[OF sub] obtain ws where
        ws: "team_workloads ?db' emps = Inr ws" "length ws = length emps" by blast
      show ?thesis
      proof (cases "length ?s' \<ge> 10")
        case True
        with "1.prems"(4) have "length ?s' = 10" by simp
        with w nb q' ws True show ?thesis
          unfolding w by (subst loop_unfold) (simp del: last.simps)
      next
        case False
        have ne: "sort_desc ws \<noteq> []"
          using ws(2) "1.prems"(3) sort_desc_length[of ws] by auto
        from False have le: "length ?s' < 10" by simp
        have "\<exists>db'' s. redistribute_loop backend ?db' emps auto_assign (sort_desc ws) ?s'
                          = Inr (db'', s)
                \<and> length ?s' \<le> length s \<and> length s \<le> 10"
          using "1.IH"[OF w refl nb q' refl refl refl ws(1) False sub ne "1.prems"(3) le b] .
        then obtain db'' s where
          r: "redistribute_loop backend ?db' emps auto_assign (sort_desc ws) ?s' = Inr (db'', s)"
            "length ?s' \<le> length s" "length s \<le> 10" by blast
        from w nb q' ws False r show ?thesis
          unfolding w by (subst loop_unfold) (simp del: last.simps)
      qed
    qed
  qed
qed

lemma team_members_subset: "set (team_members db tid) \<subseteq> set (employees db)"
  by (simp add: team_members_def)

lemma redistribute_tasks_sqlite_capped:
  assumes "find (\<lambda>t. team_id t = tid) (teams db) = Some team"
  shows "\<exists>db' s. redistribute_tasks SQLite db tid auto_assign = Inr (db', s)
           \<and> length s \<le> 10"
proof (cases "length (team_members db tid) < 2")
  case True
  with assms show ?thesis by (simp add: redistribute_tasks_def Let_def)
next
  case False
  from team_workloads_defined[OF team_members_subset] obtain ws where
    ws: "team_workloads db (team_members db tid) = Inr ws"
      "length ws = length (team_members db tid)" by blast
  from False ws(2) have ne: "sort_desc ws \<noteq> []"
    using sort_desc_length[of ws] by auto
  from False have ne2: "team_members db tid \<noteq> []" by auto
  from loop_bound[OF team_members_subset ne ne2, of "[]" SQLite auto_assign]
  obtain db' s where
    "redistribute_loop SQLite db (team_members db tid) auto_assign (sort_desc ws) []
       = Inr (db', s)"
    "length s \<le> 10" by auto
  with assms False ws(1) show ?thesis by (simp add: redistribute_tasks_def Let_def)
qed

text \<open>
  On PostgreSQL the loop has no second round: it stops at the balance test, or the
  query raises.
\<close>

lemma loop_postgresql:
  "redistribute_loop PostgreSQL db emps auto_assign (ov # rest) suggestions =
     (if global_score ov < 1.5 * global_score (last (ov # rest)) then Inr (db, suggestions)
      else Inl ProgrammingError)"
  by (subst loop_unfold) (simp add: find_transferable_task_def)

text \<open>
  Claim C4 (the code departs from it). The loop is capped: a round adds one
  suggestion and the round that reaches ten ends it, so \<open>redistribute_tasks\<close>
  terminates and never returns more than ten suggestions. But on the configured
  PostgreSQL database the query of \<open>_find_transferable_task\<close> raises: on
  \<open>db_backlog\<close>, where Ada holds a transferable task and Bob holds nothing,
  \<open>redistribute_tasks\<close> ends in \<open>ProgrammingError\<close> and returns no suggestions.
  The same call on SQLite returns the same task ten times and stops at the cap.
\<close>

theorem redistribute_tasks_query_raises:
  "find (\<lambda>t. team_id t = 1) (teams db_backlog) = Some core_team
   \<and> redistribute_tasks configured_dialect db_backlog 1 False = Inl ProgrammingError
   \<and> redistribute_tasks SQLite db_backlog 1 False
       = Inr (db_backlog, replicate 10 report_suggestion)"
proof -
  have t: "find (\<lambda>t. team_id t = 1) (teams db_backlog) = Some core_team"
    by (simp add: db_backlog_def team_defs)
  have p: "redistribute_tasks configured_dialect db_backlog 1 False = Inl ProgrammingError"
    by (simp add: redistribute_tasks_def configured_dialect_def db_backlog_def team_defs
          workload_defs Let_def loop_postgresql)
  have l: "redistribute_tasks SQLite db_backlog 1 False
             = Inr (db_backlog, replicate 10 report_suggestion)"
    by (simp add: redistribute_tasks_def db_backlog_def report_suggestion_def team_defs
          workload_defs Let_def redistribute_loop.simps numeral_eq_Suc)
  from t p l show ?thesis by simp
qed

section \<open>Priority engine: the effort sub-score\<close>

text \<open>The effort sub-score enters the priority score with weight \<open>0.2\<close>.\<close>

lemma calculate_priority_score_effort:
  "calculate_priority_score now t emp =
     min (max (w_urgency * (real_of_int (urgency t) / 5)
               + w_deadline * normalize_deadline now (deadline t)
               + w_effort * normalize_effort (estimated_effort t)
               + w_productivity * get_productivity_at_time emp now
               + w_dependencies * (case dependencies t of Some (d # ds) \<Rightarrow> 1 | _ \<Rightarrow> 0.5))
              0) 1"
  by (simp add: calculate_priority_score_def Let_def)

text \<open>
  Claim C6 (as stated, refuted). An estimate of \<open>0.0\<close> hours is strictly below 2
  hours, and its effort sub-score is \<open>0.5\<close>, not \<open>0.7 + (0/2)*0.3 = 0.7\<close>.
\<close>

theorem normalize_effort_zero:
  "normalize_effort (Some 0) = 0.5
   \<and> normalize_effort (Some 0) \<noteq> 0.7 + (0 / 2) * 0.3"
  by (simp add: normalize_effort_def)

text \<open>
  Claim C6 (amended). The effort sub-score of \<open>calculate_priority_score\<close> is
  \<open>normalize_effort\<close> of the estimate: no estimate, or an estimate of exactly
  \<open>0.0\<close>, gives \<open>0.5\<close>; any other effort strictly below 2 hours gives
  \<open>0.7 + (effort/2)*0.3\<close>; 2 to 4 hours gives \<open>1.0\<close>; above 4 and up to 8 hours
  gives \<open>1.0 - ((effort-4)/4)*0.3\<close>; above 8 hours gives \<open>0.4\<close>.
\<close>

theorem normalize_effort_piecewise:
  "normalize_effort None = 0.5
   \<and> normalize_effort (Some 0) = 0.5
   \<and> (e < 2 \<and> e \<noteq> 0 \<longrightarrow> normalize_effort (Some e) = 0.7 + (e / 2) * 0.3)
   \<and> (2 \<le> e \<and> e \<le> 4 \<longrightarrow> normalize_effort (Some e) = 1)
   \<and> (4 < e \<and> e \<le> 8 \<longrightarrow> normalize_effort (Some e) = 1 - ((e - 4) / 4) * 0.3)
   \<and> (8 < e \<longrightarrow> normalize_effort (Some e) = 0.4)"
  by (simp add: normalize_effort_def)

theorem normalize_effort_piecewise_witness:
  "normalize_effort (Some 1) = 0.85
   \<and> normalize_effort (Some 3) = 1
   \<and> normalize_effort (Some 6) = 0.85
   \<and> normalize_effort (Some 10) = 0.4"
  using normalize_effort_piecewise[of 1] normalize_effort_piecewise[of 3]
    normalize_effort_piecewise[of 6] normalize_effort_piecewise[of 10]
  by simp

section \<open>Recognition engine: manager recognition\<close>

lemma update_first_flags:
  "recognized_by_manager y \<Longrightarrow> ach_id y = i \<Longrightarrow>
   list_all2 (\<lambda>a b. ach_id b = ach_id a \<and> (recognized_by_manager a \<longrightarrow> recognized_by_manager b))
     xs (update_first (\<lambda>a. ach_id a = i) (\<lambda>_. y) xs)"
  by (induction xs) (auto simp: list_all2_refl list.rel_refl)

text \<open>
  Claim C10 (as stated, refuted). \<open>manager_recognition\<close> with the empty note on an
  unrecognized achievement sets the flag, with the empty note.
\<close>

theorem manager_recognition_empty_note:
  "map recognized_by_manager (achievements db_achievement) = [False]
   \<and> map_sum id (\<lambda>r. (recognized_by_manager (snd r), recognition_note (snd r)))
        (manager_recognition db_achievement 7 '''') = Inr (True, Some '''')
   \<and> length ('''' :: string) = 0"
  by (simp add: db_achievement_def track_achievement_def manager_recognition_def
        db_empty_def Let_def)

text \<open>
  Claim C10 (amended). When \<open>manager_recognition\<close> finds the achievement it returns
  it with the flag set and the given note, whatever the note is, and the stored row
  is the returned one; every achievement keeps its identifier, and an achievement
  that was recognized before the call is recognized after it: the flag goes from
  false to true and never back, so it flips at most once. When the achievement does
  not exist the call fails with \<open>Achievement not found\<close>.
\<close>

theorem manager_recognition_sets_flag:
  "(case find (\<lambda>a. ach_id a = aid) (achievements db) of
      None \<Rightarrow> manager_recognition db aid msg = Inl (ValueError ''Achievement not found'')
    | Some a \<Rightarrow>
        (\<exists>db' a'. manager_recognition db aid msg = Inr (db', a')
           \<and> recognized_by_manager a' \<and> recognition_note a' = Some msg
           \<and> find (\<lambda>a. ach_id a = aid) (achievements db') = Some a'
           \<and> list_all2 (\<lambda>a b. ach_id b = ach_id a
                            \<and> (recognized_by_manager a \<longrightarrow> recognized_by_manager b))
                 (achievements db) (achievements db')))"
proof (cases "find (\<lambda>a. ach_id a = aid) (achievements db)")
  case None
  then show ?thesis by (simp add: manager_recognition_def)
next
  case (Some a)
  let ?a' = "a \<lparr> recognized_by_manager := True, recognition_note := Some msg \<rparr>"
  have i: "ach_id a = aid" using find_Some_P[OF Some] .
  then have P: "ach_id ?a' = aid" by simp
  have f: "find (\<lambda>a. ach_id a = aid)
             (update_first (\<lambda>a. ach_id a = aid) (\<lambda>_. ?a') (achievements db)) = Some ?a'"
    using Some P by (rule find_update_first)
  have l: "list_all2 (\<lambda>a b. ach_id b = ach_id a
                            \<and> (recognized_by_manager a \<longrightarrow> recognized_by_manager b))
             (achievements db)
             (update_first (\<lambda>a. ach_id a = aid) (\<lambda>_. ?a') (achievements db))"
    by (rule update_first_flags) (simp_all add: i)
  from Some f l show ?thesis
    by (simp add: manager_recognition_def Let_def)
qed

theorem manager_recognition_sets_flag_witness:
  "find (\<lambda>a. ach_id a = 7) (achievements db_achievement) \<noteq> None
   \<and> (\<exists>db' a'. manager_recognition db_achievement 7 ''well done'' = Inr (db', a')
         \<and> recognized_by_manager a' \<and> recognition_note a' = Some ''well done''
         \<and> (\<exists>db'' a''. manager_recognition db' 7 ''again'' = Inr (db'', a'')
               \<and> recognized_by_manager a'' \<and> recognition_note a'' = Some ''again''))
   \<and> manager_recognition db_achievement 8 ''well done''
       = Inl (ValueError ''Achievement not found'')"
proof -
  obtain a where a: "find (\<lambda>a. ach_id a = 7) (achievements db_achievement) = Some a"
    by (simp add: db_achievement_def track_achievement_def db_empty_def Let_def)
  from manager_recognition_sets_flag[where aid = 7 and db = db_achievement and msg = "''well done''"] a
  obtain db' a' where 1: "manager_recognition db_achievement 7 ''well done'' = Inr (db', a')"
    "recognized_by_manager a'" "recognition_note a' = Some ''well done''"
    "find (\<lambda>a. ach_id a = 7) (achievements db') = Some a'"
    by auto
  from manager_recognition_sets_flag[where aid = 7 and db = db' and msg = "''again''"] 1(4)
  obtain db'' a'' where 2: "manager_recognition db' 7 ''again'' = Inr (db'', a'')"
    "recognized_by_manager a''" "recognition_note a'' = Some ''again''"
    by auto
  have n: "find (\<lambda>a. ach_id a = 8) (achievements db_achievement) = None"
    by (simp add: db_achievement_def track_achievement_def db_empty_def Let_def)
  from manager_recognition_sets_flag[where aid = 8 and db = db_achievement and msg = "''well done''"] n
  have 3: "manager_recognition db_achievement 8 ''well done''
             = Inl (ValueError ''Achievement not found'')"
    by simp
  from a 1 2 3 show ?thesis by auto
qed

end
